theory Spec2Isabelle
  imports Complex_Main
begin

section \<open>Posture scoring and feedback engine (main.py)\<close>

subsection \<open>Values, strings and containers of the Python program\<close>

text \<open>
  The metric dictionary is typed \<^verbatim>\<open>Dict[str, Any]\<close>: a value parsed from the request body
  is null, a boolean, a number, a string, or an array/object. Finite numbers (Python ints
  and floats) are embedded as the reals they denote; \<open>PyOther\<close> stands for arrays and
  objects.
\<close>

datatype pyval = PyNone | PyBool bool | PyNum real | PyStr string | PyOther

datatype exc = TypeError

text \<open>
  A dictionary is kept as an association list read by \<open>map_of\<close>; the empty dictionary is
  the empty list, which is what \<^verbatim>\<open>not metrics\<close> tests.
\<close>

type_synonym metrics_dict = "(string \<times> pyval) list"

text \<open>\<^verbatim>\<open>metrics.get(key)\<close>: the stored value, or None for a missing key.\<close>

definition dict_get :: "metrics_dict \<Rightarrow> string \<Rightarrow> pyval" where
  "dict_get metrics key = (case map_of metrics key of None \<Rightarrow> PyNone | Some v \<Rightarrow> v)"

text \<open>
  \<^verbatim>\<open>abs(v)\<close>: defined on numbers and booleans (\<^verbatim>\<open>abs(True) == 1\<close>), TypeError on
  everything else.
\<close>

fun py_abs :: "pyval \<Rightarrow> exc + real" where
  "py_abs (PyNum r) = Inr \<bar>r\<bar>"
| "py_abs (PyBool b) = Inr (if b then 1 else 0)"
| "py_abs PyNone = Inl TypeError"
| "py_abs (PyStr s) = Inl TypeError"
| "py_abs PyOther = Inl TypeError"

text \<open>\<^verbatim>\<open>v > t\<close> for a float \<open>t\<close>: TypeError unless \<open>v\<close> is a number or a boolean.\<close>

fun py_gt :: "pyval \<Rightarrow> real \<Rightarrow> exc + bool" where
  "py_gt (PyNum r) t = Inr (r > t)"
| "py_gt (PyBool b) t = Inr ((if b then 1 else 0) > t)"
| "py_gt PyNone t = Inl TypeError"
| "py_gt (PyStr s) t = Inl TypeError"
| "py_gt PyOther t = Inl TypeError"

text \<open>\<^verbatim>\<open>round(n)\<close> of an int is that int; the score is an int throughout.\<close>

definition py_round :: "int \<Rightarrow> int" where
  "py_round n = n"

text \<open>\<^verbatim>\<open>s.lower()\<close> on the ASCII letters; every other character is kept.\<close>

definition ascii_uppercase :: string where
  "ascii_uppercase = ''ABCDEFGHIJKLMNOPQRSTUVWXYZ''"

definition ascii_lowercase :: string where
  "ascii_lowercase = ''abcdefghijklmnopqrstuvwxyz''"

definition lower_char :: "char \<Rightarrow> char" where
  "lower_char c =
     (case map_of (zip ascii_uppercase ascii_lowercase) c of None \<Rightarrow> c | Some l \<Rightarrow> l)"

definition lower :: "string \<Rightarrow> string" where
  "lower s = map lower_char s"

text \<open>\<^verbatim>\<open>needle in hay\<close> on strings: \<open>needle\<close> occurs at some position of \<open>hay\<close>.\<close>

fun str_contains :: "string \<Rightarrow> string \<Rightarrow> bool" where
  "str_contains needle [] = (needle = [])"
| "str_contains needle (c # cs) =
     (take (length needle) (c # cs) = needle \<or> str_contains needle cs)"

text \<open>\<^verbatim>\<open>sep.join(parts)\<close>.\<close>

fun join :: "string \<Rightarrow> string list \<Rightarrow> string" where
  "join sep [] = []"
| "join sep [x] = x"
| "join sep (x # y # ys) = x @ sep @ join sep (y # ys)"

text \<open>
  \<^verbatim>\<open>s.replace("..", ".")\<close>: a left-to-right scan that replaces each occurrence found and
  resumes after it.
\<close>

fun replace_dotdot :: "string \<Rightarrow> string" where
  "replace_dotdot (a # b # cs) =
     (if a = CHR ''.'' \<and> b = CHR ''.'' then CHR ''.'' # replace_dotdot cs
      else a # replace_dotdot (b # cs))"
| "replace_dotdot cs = cs"

text \<open>\<^verbatim>\<open>s.strip()\<close>: leading and trailing ASCII whitespace removed.\<close>

definition is_space :: "char \<Rightarrow> bool" where
  "is_space c = (c \<in> set [CHR '' '', CHR 0x09, CHR 0x0A, CHR 0x0B, CHR 0x0C, CHR 0x0D,
                            CHR 0x1C, CHR 0x1D, CHR 0x1E, CHR 0x1F])"

definition strip :: "string \<Rightarrow> string" where
  "strip s = rev (dropWhile is_space (rev (dropWhile is_space s)))"

text \<open>
  \<^verbatim>\<open>list(dict.fromkeys(xs))\<close>: the keys are inserted in order, and a key already present
  keeps its place.
\<close>

fun fromkeys_into :: "string list \<Rightarrow> string list \<Rightarrow> string list" where
  "fromkeys_into keys [] = keys"
| "fromkeys_into keys (x # xs) =
     fromkeys_into (if x \<in> set keys then keys else keys @ [x]) xs"

definition dict_fromkeys :: "string list \<Rightarrow> string list" where
  "dict_fromkeys xs = fromkeys_into [] xs"

subsection \<open>Constants\<close>

datatype threshold_key =
    shoulder_angle_warning | shoulder_angle_significant
  | head_forward_ratio_warning | head_forward_ratio_significant
  | torso_angle_warning | torso_angle_significant
  | spine_offset_ratio_warning | spine_offset_ratio_significant

text \<open>
  The float literals 0.1, 0.15 and 0.20 denote the nearest IEEE-754 doubles; their exact
  values are written out, so that a comparison in the model agrees with the program's on
  every finite number.
\<close>

fun THRESHOLDS :: "threshold_key \<Rightarrow> real" where
  "THRESHOLDS shoulder_angle_warning = 5"
| "THRESHOLDS shoulder_angle_significant = 10"
| "THRESHOLDS head_forward_ratio_warning = 3602879701896397 / 36028797018963968"
| "THRESHOLDS head_forward_ratio_significant = 5404319552844595 / 36028797018963968"
| "THRESHOLDS torso_angle_warning = 15"
| "THRESHOLDS torso_angle_significant = 20"
| "THRESHOLDS spine_offset_ratio_warning = 5404319552844595 / 36028797018963968"
| "THRESHOLDS spine_offset_ratio_significant = 3602879701896397 / 18014398509481984"

datatype penalty_key = significant | warning | missing_data_low | visibility_issue

fun PENALTIES :: "penalty_key \<Rightarrow> int" where
  "PENALTIES significant = 22"
| "PENALTIES warning = 14"
| "PENALTIES missing_data_low = 5"
| "PENALTIES visibility_issue = 6"

subsection \<open>calculate_overall_score\<close>

text \<open>Each block of the function takes the running score and returns it updated, or raises.\<close>

definition score_shoulder :: "metrics_dict \<Rightarrow> bool \<Rightarrow> int \<Rightarrow> exc + int" where
  "score_shoulder metrics has_visibility_issue score =
     (let shoulder_angle = dict_get metrics ''shoulderAngle'' in
      if shoulder_angle \<noteq> PyNone then
        (case py_abs shoulder_angle of
           Inl e \<Rightarrow> Inl e
         | Inr abs_angle \<Rightarrow>
             if abs_angle > THRESHOLDS shoulder_angle_significant
               then Inr (score - PENALTIES significant)
             else if abs_angle > THRESHOLDS shoulder_angle_warning
               then Inr (score - PENALTIES warning)
             else Inr score)
      else if \<not> has_visibility_issue then Inr (score - PENALTIES missing_data_low)
      else Inr score)"

definition score_torso :: "metrics_dict \<Rightarrow> bool \<Rightarrow> int \<Rightarrow> exc + int" where
  "score_torso metrics has_visibility_issue score =
     (let torso_angle = dict_get metrics ''torsoAngleFromVertical'' in
      if torso_angle \<noteq> PyNone then
        (case py_abs torso_angle of
           Inl e \<Rightarrow> Inl e
         | Inr abs_angle \<Rightarrow>
             if abs_angle > THRESHOLDS torso_angle_significant
               then Inr (score - PENALTIES significant)
             else if abs_angle > THRESHOLDS torso_angle_warning
               then Inr (score - PENALTIES warning)
             else Inr score)
      else if \<not> has_visibility_issue then Inr (score - PENALTIES missing_data_low)
      else Inr score)"

definition score_spine :: "metrics_dict \<Rightarrow> bool \<Rightarrow> int \<Rightarrow> exc + int" where
  "score_spine metrics has_visibility_issue score =
     (let spine_offset = dict_get metrics ''spineHorizontalOffsetRatio'' in
      if spine_offset \<noteq> PyNone then
        (case py_gt spine_offset (THRESHOLDS spine_offset_ratio_significant) of
           Inl e \<Rightarrow> Inl e
         | Inr True \<Rightarrow> Inr (score - PENALTIES significant)
         | Inr False \<Rightarrow>
             (case py_gt spine_offset (THRESHOLDS spine_offset_ratio_warning) of
                Inl e \<Rightarrow> Inl e
              | Inr True \<Rightarrow> Inr (score - PENALTIES warning)
              | Inr False \<Rightarrow> Inr score))
      else if \<not> has_visibility_issue then Inr (score - PENALTIES missing_data_low)
      else Inr score)"

definition score_head :: "metrics_dict \<Rightarrow> bool \<Rightarrow> int \<Rightarrow> exc + int" where
  "score_head metrics has_visibility_issue score =
     (let head_forward = dict_get metrics ''headForwardRatio'' in
      if head_forward \<noteq> PyNone then
        (case py_gt head_forward (THRESHOLDS head_forward_ratio_significant) of
           Inl e \<Rightarrow> Inl e
         | Inr True \<Rightarrow> Inr (score - PENALTIES significant)
         | Inr False \<Rightarrow>
             (case py_gt head_forward (THRESHOLDS head_forward_ratio_warning) of
                Inl e \<Rightarrow> Inl e
              | Inr True \<Rightarrow> Inr (score - PENALTIES warning)
              | Inr False \<Rightarrow> Inr score))
      else if \<not> has_visibility_issue then Inr (score - PENALTIES missing_data_low)
      else Inr score)"

text \<open>The issue tests of the scorer: \<^verbatim>\<open>"visibility" in i.lower()\<close> and the like.\<close>

definition mentions :: "string \<Rightarrow> string \<Rightarrow> bool" where
  "mentions word i = str_contains word (lower i)"

definition calculate_overall_score :: "metrics_dict \<Rightarrow> string list \<Rightarrow> exc + int option" where
  "calculate_overall_score metrics issues =
     (if metrics = [] \<and>
         (issues = [] \<or>
          list_all (\<lambda>i. mentions ''visibility'' i \<or> mentions ''waiting'' i) issues)
      then Inr None
      else
        let has_visibility_issue = list_ex (\<lambda>i. mentions ''visibility'' i) issues in
        case score_shoulder metrics has_visibility_issue 100 of
          Inl e \<Rightarrow> Inl e
        | Inr score \<Rightarrow>
        (case score_torso metrics has_visibility_issue score of
          Inl e \<Rightarrow> Inl e
        | Inr score \<Rightarrow>
        (case score_spine metrics has_visibility_issue score of
          Inl e \<Rightarrow> Inl e
        | Inr score \<Rightarrow>
        (case score_head metrics has_visibility_issue score of
          Inl e \<Rightarrow> Inl e
        | Inr score \<Rightarrow>
            (let score = (if has_visibility_issue then score - PENALTIES visibility_issue
                          else score);
                 final_score = max 0 (min 100 (py_round score))
             in Inr (Some final_score))))))"

subsection \<open>The metric analysis of analyze_posture_endpoint\<close>

text \<open>
  The two lists the endpoint fills, \<^verbatim>\<open>assessment_parts\<close> and \<^verbatim>\<open>recommendations\<close>, are
  threaded through the four blocks of the inner \<^verbatim>\<open>try\<close>. A block raises only in
  \<^verbatim>\<open>abs\<close> or in a comparison, before it appends anything.
\<close>

type_synonym assess_lists = "string list \<times> string list"

definition assess_shoulder :: "metrics_dict \<Rightarrow> assess_lists \<Rightarrow> exc + assess_lists" where
  "assess_shoulder metrics st =
     (case st of (assessment_parts, recommendations) \<Rightarrow>
      let shoulder_angle = dict_get metrics ''shoulderAngle'' in
      if shoulder_angle \<noteq> PyNone then
        (case py_abs shoulder_angle of
           Inl e \<Rightarrow> Inl e
         | Inr abs_angle \<Rightarrow>
             if abs_angle > THRESHOLDS shoulder_angle_significant then
               Inr (assessment_parts @ [''Shoulders significantly uneven.''],
                    recommendations @
                      [''Sit evenly, relax shoulders.'', ''Check armrest height/usage.''])
             else if abs_angle > THRESHOLDS shoulder_angle_warning then
               Inr (assessment_parts @ [''Shoulders slightly uneven.''],
                    recommendations @ [''Be mindful of keeping shoulders level.''])
             else Inr st)
      else Inr st)"

definition assess_spine :: "metrics_dict \<Rightarrow> assess_lists \<Rightarrow> exc + assess_lists" where
  "assess_spine metrics st =
     (case st of (assessment_parts, recommendations) \<Rightarrow>
      let spine_offset = dict_get metrics ''spineHorizontalOffsetRatio'' in
      if spine_offset \<noteq> PyNone then
        (case py_gt spine_offset (THRESHOLDS spine_offset_ratio_significant) of
           Inl e \<Rightarrow> Inl e
         | Inr True \<Rightarrow>
             Inr (assessment_parts @ [''Significant sideways lean.''],
                  recommendations @
                    [''Engage core, sit centered.'', ''Avoid leaning heavily on one armrest.''])
         | Inr False \<Rightarrow>
             (case py_gt spine_offset (THRESHOLDS spine_offset_ratio_warning) of
                Inl e \<Rightarrow> Inl e
              | Inr True \<Rightarrow>
                  Inr (assessment_parts @ [''Slight sideways lean.''],
                       recommendations @
                         [''Check if leaning towards monitor or on armrest.''])
              | Inr False \<Rightarrow> Inr st))
      else Inr st)"

definition assess_torso :: "metrics_dict \<Rightarrow> assess_lists \<Rightarrow> exc + assess_lists" where
  "assess_torso metrics st =
     (case st of (assessment_parts, recommendations) \<Rightarrow>
      let torso_angle = dict_get metrics ''torsoAngleFromVertical'' in
      if torso_angle \<noteq> PyNone then
        (case py_abs torso_angle of
           Inl e \<Rightarrow> Inl e
         | Inr abs_angle \<Rightarrow>
             if abs_angle > THRESHOLDS torso_angle_significant then
               Inr (assessment_parts @ [''Significant slouch or backward lean.''],
                    recommendations @
                      [''Sit tall, chest up.'', ''Use lumbar support actively.'',
                       ''Stretch chest/back during breaks.''])
             else if abs_angle > THRESHOLDS torso_angle_warning then
               Inr (assessment_parts @ [''Slight slouch or backward lean.''],
                    recommendations @
                      [''Gently pull shoulder blades back/down. Imagine head pulled up.''])
             else Inr st)
      else Inr st)"

definition assess_head :: "metrics_dict \<Rightarrow> assess_lists \<Rightarrow> exc + assess_lists" where
  "assess_head metrics st =
     (case st of (assessment_parts, recommendations) \<Rightarrow>
      let head_forward = dict_get metrics ''headForwardRatio'' in
      if head_forward \<noteq> PyNone then
        (case py_gt head_forward (THRESHOLDS head_forward_ratio_significant) of
           Inl e \<Rightarrow> Inl e
         | Inr True \<Rightarrow>
             Inr (assessment_parts @ [''Significant forward head posture.''],
                  recommendations @
                    [''Gently tuck chin (ears over shoulders).'',
                     ''Ensure monitor at eye level & arm's length.''])
         | Inr False \<Rightarrow>
             (case py_gt head_forward (THRESHOLDS head_forward_ratio_warning) of
                Inl e \<Rightarrow> Inl e
              | Inr True \<Rightarrow>
                  Inr (assessment_parts @ [''Slight forward head posture.''],
                       recommendations @
                         [''Perform chin tucks periodically. Check monitor distance.''])
              | Inr False \<Rightarrow> Inr st))
      else Inr st)"

text \<open>The handler of the inner \<^verbatim>\<open>try\<close>: one phrase is appended to what the lists hold.\<close>

definition on_metric_error :: "assess_lists \<Rightarrow> assess_lists" where
  "on_metric_error st = (fst st @ [''Error during metric analysis.''], snd st)"

text \<open>
  The inner \<^verbatim>\<open>try\<close>/\<^verbatim>\<open>except\<close> as a whole: the four blocks run in the order shoulder,
  spine, torso, head; the first block that raises hands the lists, as they are then, to the
  handler, and the blocks after it do not run.
\<close>

definition analyze_metrics :: "metrics_dict \<Rightarrow> assess_lists" where
  "analyze_metrics metrics =
     (let st0 = ([], []) in
      case assess_shoulder metrics st0 of
        Inl e \<Rightarrow> on_metric_error st0
      | Inr st1 \<Rightarrow>
      (case assess_spine metrics st1 of
        Inl e \<Rightarrow> on_metric_error st1
      | Inr st2 \<Rightarrow>
      (case assess_torso metrics st2 of
        Inl e \<Rightarrow> on_metric_error st2
      | Inr st3 \<Rightarrow>
      (case assess_head metrics st3 of
        Inl e \<Rightarrow> on_metric_error st3
      | Inr st4 \<Rightarrow> st4))))"

subsection \<open>analyze_posture_endpoint\<close>

definition maintenance_tips_list :: "string list" where
  "maintenance_tips_list =
     [''Take brief breaks every 30 mins to stretch/move.'',
      ''Ensure feet flat, knees ~90'' @ [CHR 0xC2, CHR 0xB0] @ '', back supported.'',
      ''Keep elbows near 90'' @ [CHR 0xC2, CHR 0xB0] @ '' while typing, close to body.'',
      ''Monitor top roughly at eye level, arm's length away.'',
      ''Use lumbar support for spine's natural curve.'']"

definition benefits_text :: string where
  "benefits_text =
     ''Good posture reduces pain (back, neck, shoulders), improves breathing & focus, '' @
     ''and prevents long-term spinal issues.''"

text \<open>
  An exception that leaves the outer \<^verbatim>\<open>try\<close> becomes an HTTPException with status 500
  (the detail text, which quotes the exception, is not modelled).
\<close>

datatype http_error = HTTPException nat

record PostureFeedback =
  score :: "int option"
  assessment :: "string option"
  recommendations :: "string list"
  maintenance_tips :: "string list"
  benefits :: "string option"

text \<open>
  The two fields of the request may each be None:
  \<^verbatim>\<open>data.metrics if isinstance(data.metrics, dict) else {}\<close>, and the same for the issues.
\<close>

definition request_metrics :: "metrics_dict option \<Rightarrow> metrics_dict" where
  "request_metrics data_metrics = (case data_metrics of Some d \<Rightarrow> d | None \<Rightarrow> [])"

definition request_issues :: "string list option \<Rightarrow> string list" where
  "request_issues data_issues = (case data_issues of Some l \<Rightarrow> l | None \<Rightarrow> [])"

text \<open>The list \<^verbatim>\<open>recommendations\<close> of the source is \<open>recs\<close> here.\<close>

definition analyze_posture_endpoint ::
    "metrics_dict option \<Rightarrow> string list option \<Rightarrow> http_error + PostureFeedback" where
  "analyze_posture_endpoint data_metrics data_issues =
     (let metrics = request_metrics data_metrics;
          frontend_issues = request_issues data_issues
      in
      case analyze_metrics metrics of (assessment_parts, recs) \<Rightarrow>
      (case calculate_overall_score metrics frontend_issues of
         Inl e \<Rightarrow> Inl (HTTPException 500)
       | Inr final_score \<Rightarrow>
          (let has_specific_posture_issue = (assessment_parts \<noteq> []);
               has_visibility_issue =
                 list_ex (\<lambda>p. mentions ''visibility'' p \<or> mentions ''unclear'' p) frontend_issues;
               is_waiting = list_ex (\<lambda>p. mentions ''waiting'' p) frontend_issues;
               final_assessment =
                 (if assessment_parts = [] \<and> \<not> has_visibility_issue \<and> \<not> is_waiting then
                    ''Posture analysis indicates good alignment.''
                  else if has_visibility_issue \<and> assessment_parts = [] then
                    ''Could not analyze clearly due to visibility. Adjust position/lighting.''
                  else if is_waiting \<and> assessment_parts = [] then
                    ''Waiting for clearer pose data.''
                  else
                    (let unique_parts = dict_fromkeys assessment_parts;
                         joined = join ''. '' unique_parts @ ''.''
                     in if has_visibility_issue
                        then joined @ '' Visibility may affect accuracy.'' else joined));
               final_assessment = strip (replace_dotdot final_assessment);
               great = ((case final_score of None \<Rightarrow> False | Some s \<Rightarrow> s \<ge> 85) \<and>
                        \<not> has_specific_posture_issue \<and> \<not> has_visibility_issue);
               final_assessment =
                 (if great then ''Posture looks great! Keep it up.'' else final_assessment);
               show_extras =
                 (if great then True else if has_specific_posture_issue then True else False);
               unique_recommendations = dict_fromkeys (filter (\<lambda>r. r \<noteq> []) recs);
               only_visibility_or_waiting =
                 ((has_visibility_issue \<or> is_waiting) \<and> \<not> has_specific_posture_issue);
               unique_recommendations =
                 (if only_visibility_or_waiting then [] else unique_recommendations);
               show_extras = (if only_visibility_or_waiting then False else show_extras)
           in Inr \<lparr>score = final_score,
                   assessment = Some final_assessment,
                   recommendations = unique_recommendations,
                   maintenance_tips = (if show_extras then maintenance_tips_list else []),
                   benefits = (if show_extras then Some benefits_text else None)\<rparr>)))"

subsection \<open>Notions used to state the properties\<close>

text \<open>The four recognised metric names.\<close>

definition metric_keys :: "string list" where
  "metric_keys =
     [''shoulderAngle'', ''torsoAngleFromVertical'', ''spineHorizontalOffsetRatio'',
      ''headForwardRatio'']"

text \<open>The order in which the inner \<^verbatim>\<open>try\<close> of the endpoint looks at them.\<close>

definition analysis_order :: "string list" where
  "analysis_order =
     [''shoulderAngle'', ''spineHorizontalOffsetRatio'', ''torsoAngleFromVertical'',
      ''headForwardRatio'']"

text \<open>
  A value that \<^verbatim>\<open>abs\<close> and \<^verbatim>\<open>>\<close> accept, and a metric dictionary of the kind the
  specification's data model describes: every recognised metric is absent, null or a number.
\<close>

fun is_number :: "pyval \<Rightarrow> bool" where
  "is_number (PyNum r) = True"
| "is_number (PyBool b) = True"
| "is_number v = False"

definition numeric_or_null :: "pyval \<Rightarrow> bool" where
  "numeric_or_null v = (v = PyNone \<or> is_number v)"

definition numeric_metrics :: "metrics_dict \<Rightarrow> bool" where
  "numeric_metrics metrics = list_all (\<lambda>k. numeric_or_null (dict_get metrics k)) metric_keys"

text \<open>\<^verbatim>\<open>metrics[key] = v\<close>: an existing key keeps its place, a new one goes last.\<close>

fun dict_set :: "metrics_dict \<Rightarrow> string \<Rightarrow> pyval \<Rightarrow> metrics_dict" where
  "dict_set [] key v = [(key, v)]"
| "dict_set (p # ps) key v = (if fst p = key then (key, v) # ps else p # dict_set ps key v)"

text \<open>The dictionary cut down to some of its keys.\<close>

definition restrict_keys :: "metrics_dict \<Rightarrow> string list \<Rightarrow> metrics_dict" where
  "restrict_keys metrics keys = filter (\<lambda>p. fst p \<in> set keys) metrics"

text \<open>
  What "de-duplicated, in order of first occurrence" means, said directly: the elements
  of \<open>xs\<close> at the positions where they occur for the first time, in the order of \<open>xs\<close>.
\<close>

definition first_occurrences :: "string list \<Rightarrow> string list" where
  "first_occurrences xs =
     map (\<lambda>i. xs ! i) (filter (\<lambda>i. xs ! i \<notin> set (take i xs)) [0..<length xs])"

section \<open>Properties\<close>

subsection \<open>Rules for evaluating the functions on concrete inputs\<close>

lemmas issue_eval =
  mentions_def lower_def lower_char_def ascii_uppercase_def ascii_lowercase_def

lemmas scorer_eval =
  calculate_overall_score_def score_shoulder_def score_torso_def score_spine_def
  score_head_def dict_get_def py_round_def mentions_def lower_def lower_char_def
  ascii_uppercase_def ascii_lowercase_def

lemmas metric_eval =
  dict_get_def analyze_metrics_def assess_shoulder_def assess_spine_def assess_torso_def
  assess_head_def on_metric_error_def

subsection \<open>The scorer: when it returns and when it raises\<close>

lemma py_abs_number: "is_number v \<Longrightarrow> \<exists>a. py_abs v = Inr a"
  by (cases v) auto

lemma py_gt_number: "is_number v \<Longrightarrow> \<exists>b. py_gt v t = Inr b"
  by (cases v) auto

lemma py_abs_raises: "\<not> numeric_or_null v \<Longrightarrow> py_abs v = Inl TypeError"
  by (cases v) (auto simp: numeric_or_null_def)

lemma py_gt_raises: "\<not> numeric_or_null v \<Longrightarrow> py_gt v t = Inl TypeError"
  by (cases v) (auto simp: numeric_or_null_def)

lemma score_shoulder_shift:
  assumes "numeric_or_null (dict_get m ''shoulderAngle'')"
  shows "\<exists>p. \<forall>sc. score_shoulder m hv sc = Inr (sc - p)"
proof (cases "dict_get m ''shoulderAngle'' = PyNone")
  case True
  then show ?thesis
    by (cases hv) (auto simp: score_shoulder_def intro: exI [of _ 0])
next
  case False
  with assms have "is_number (dict_get m ''shoulderAngle'')"
    by (simp add: numeric_or_null_def)
  then obtain a where "py_abs (dict_get m ''shoulderAngle'') = Inr a"
    using py_abs_number by blast
  with False show ?thesis
    by (auto simp: score_shoulder_def intro: exI [of _ 0])
qed

lemma score_torso_shift:
  assumes "numeric_or_null (dict_get m ''torsoAngleFromVertical'')"
  shows "\<exists>p. \<forall>sc. score_torso m hv sc = Inr (sc - p)"
proof (cases "dict_get m ''torsoAngleFromVertical'' = PyNone")
  case True
  then show ?thesis
    by (cases hv) (auto simp: score_torso_def intro: exI [of _ 0])
next
  case False
  with assms have "is_number (dict_get m ''torsoAngleFromVertical'')"
    by (simp add: numeric_or_null_def)
  then obtain a where "py_abs (dict_get m ''torsoAngleFromVertical'') = Inr a"
    using py_abs_number by blast
  with False show ?thesis
    by (auto simp: score_torso_def intro: exI [of _ 0])
qed

lemma score_spine_shift:
  assumes "numeric_or_null (dict_get m ''spineHorizontalOffsetRatio'')"
  shows "\<exists>p. \<forall>sc. score_spine m hv sc = Inr (sc - p)"
proof (cases "dict_get m ''spineHorizontalOffsetRatio'' = PyNone")
  case True
  then show ?thesis
    by (cases hv) (auto simp: score_spine_def intro: exI [of _ 0])
next
  case False
  with assms have n: "is_number (dict_get m ''spineHorizontalOffsetRatio'')"
    by (simp add: numeric_or_null_def)
  obtain b1 b2 where
    "py_gt (dict_get m ''spineHorizontalOffsetRatio'') (THRESHOLDS spine_offset_ratio_significant) = Inr b1"
    "py_gt (dict_get m ''spineHorizontalOffsetRatio'') (THRESHOLDS spine_offset_ratio_warning) = Inr b2"
    using py_gt_number [OF n] by blast
  with False show ?thesis
    by (cases b1; cases b2) (auto simp: score_spine_def intro: exI [of _ 0])
qed

lemma score_head_shift:
  assumes "numeric_or_null (dict_get m ''headForwardRatio'')"
  shows "\<exists>p. \<forall>sc. score_head m hv sc = Inr (sc - p)"
proof (cases "dict_get m ''headForwardRatio'' = PyNone")
  case True
  then show ?thesis
    by (cases hv) (auto simp: score_head_def intro: exI [of _ 0])
next
  case False
  with assms have n: "is_number (dict_get m ''headForwardRatio'')"
    by (simp add: numeric_or_null_def)
  obtain b1 b2 where
    "py_gt (dict_get m ''headForwardRatio'') (THRESHOLDS head_forward_ratio_significant) = Inr b1"
    "py_gt (dict_get m ''headForwardRatio'') (THRESHOLDS head_forward_ratio_warning) = Inr b2"
    using py_gt_number [OF n] by blast
  with False show ?thesis
    by (cases b1; cases b2) (auto simp: score_head_def intro: exI [of _ 0])
qed

lemma numeric_metricsD:
  assumes "numeric_metrics m"
  shows "numeric_or_null (dict_get m ''shoulderAngle'')"
    and "numeric_or_null (dict_get m ''torsoAngleFromVertical'')"
    and "numeric_or_null (dict_get m ''spineHorizontalOffsetRatio'')"
    and "numeric_or_null (dict_get m ''headForwardRatio'')"
  using assms by (simp_all add: numeric_metrics_def metric_keys_def)

lemma calculate_overall_score_numeric:
  assumes "numeric_metrics m"
  shows "\<exists>r. calculate_overall_score m is = Inr r"
proof -
  obtain p1 where 1: "\<And>hv sc. score_shoulder m hv sc = Inr (sc - p1 hv)"
    using score_shoulder_shift [OF numeric_metricsD(1) [OF assms]] by metis
  obtain p2 where 2: "\<And>hv sc. score_torso m hv sc = Inr (sc - p2 hv)"
    using score_torso_shift [OF numeric_metricsD(2) [OF assms]] by metis
  obtain p3 where 3: "\<And>hv sc. score_spine m hv sc = Inr (sc - p3 hv)"
    using score_spine_shift [OF numeric_metricsD(3) [OF assms]] by metis
  obtain p4 where 4: "\<And>hv sc. score_head m hv sc = Inr (sc - p4 hv)"
    using score_head_shift [OF numeric_metricsD(4) [OF assms]] by metis
  show ?thesis
    by (simp add: calculate_overall_score_def Let_def 1 2 3 4)
qed

lemma score_shoulder_raises:
  "\<not> numeric_or_null (dict_get m ''shoulderAngle'') \<Longrightarrow> score_shoulder m hv sc = Inl TypeError"
  by (cases "dict_get m ''shoulderAngle''") (simp_all add: score_shoulder_def numeric_or_null_def)

lemma score_torso_raises:
  "\<not> numeric_or_null (dict_get m ''torsoAngleFromVertical'') \<Longrightarrow> score_torso m hv sc = Inl TypeError"
  by (cases "dict_get m ''torsoAngleFromVertical''") (simp_all add: score_torso_def numeric_or_null_def)

lemma score_spine_raises:
  "\<not> numeric_or_null (dict_get m ''spineHorizontalOffsetRatio'') \<Longrightarrow> score_spine m hv sc = Inl TypeError"
  by (cases "dict_get m ''spineHorizontalOffsetRatio''") (simp_all add: score_spine_def numeric_or_null_def)

lemma score_head_raises:
  "\<not> numeric_or_null (dict_get m ''headForwardRatio'') \<Longrightarrow> score_head m hv sc = Inl TypeError"
  by (cases "dict_get m ''headForwardRatio''") (simp_all add: score_head_def numeric_or_null_def)

lemma calculate_overall_score_raises:
  assumes "\<not> numeric_metrics m"
  shows "calculate_overall_score m is = Inl TypeError"
proof -
  have ne: "m \<noteq> []"
    using assms
    by (auto simp: numeric_metrics_def metric_keys_def numeric_or_null_def dict_get_def)
  show ?thesis
  proof (cases "numeric_or_null (dict_get m ''shoulderAngle'')")
    case False
    then show ?thesis
      by (simp add: calculate_overall_score_def ne score_shoulder_raises)
  next
    case n1: True
    then obtain p1 where 1: "\<And>hv sc. score_shoulder m hv sc = Inr (sc - p1 hv)"
      using score_shoulder_shift by metis
    show ?thesis
    proof (cases "numeric_or_null (dict_get m ''torsoAngleFromVertical'')")
      case False
      then show ?thesis
        by (simp add: calculate_overall_score_def ne 1 score_torso_raises)
    next
      case n2: True
      then obtain p2 where 2: "\<And>hv sc. score_torso m hv sc = Inr (sc - p2 hv)"
        using score_torso_shift by metis
      show ?thesis
      proof (cases "numeric_or_null (dict_get m ''spineHorizontalOffsetRatio'')")
        case False
        then show ?thesis
          by (simp add: calculate_overall_score_def ne 1 2 score_spine_raises)
      next
        case n3: True
        then obtain p3 where 3: "\<And>hv sc. score_spine m hv sc = Inr (sc - p3 hv)"
          using score_spine_shift by metis
        from assms n1 n2 n3 have "\<not> numeric_or_null (dict_get m ''headForwardRatio'')"
          by (simp add: numeric_metrics_def metric_keys_def)
        then show ?thesis
          by (simp add: calculate_overall_score_def ne 1 2 3 score_head_raises)
      qed
    qed
  qed
qed

subsection \<open>Claims about calculate_overall_score\<close>

text \<open>
  C4. Whatever the metric dictionary and the issue list, a score that is returned and is
  not null lies between 0 and 100: the last step clamps the rounded total.
\<close>

theorem score_in_range:
  "calculate_overall_score m is = Inr (Some s) \<Longrightarrow> 0 \<le> s \<and> s \<le> 100"
  by (auto simp: calculate_overall_score_def Let_def split: if_splits sum.splits)

theorem score_in_range_witness:
  "calculate_overall_score [(''shoulderAngle'', PyNum 12)] [''Low visibility''] = Inr (Some 72)
   \<and> (0::int) \<le> 72 \<and> (72::int) \<le> 100"
proof -
  have h: "calculate_overall_score [(''shoulderAngle'', PyNum 12)] [''Low visibility'']
             = Inr (Some 72)"
    by (simp add: scorer_eval)
  show ?thesis using h score_in_range [OF h] by simp
qed

text \<open>
  C2 (as the code has it). The scorer returns null exactly when the metric dictionary is
  empty and every issue string mentions "visibility" or "waiting" (case-insensitively); in
  particular it does so for an empty dictionary with no issues at all. In every other
  case it returns an integer, provided that every recognised metric is absent, null or a
  number.
\<close>

theorem insufficient_data_iff:
  "(calculate_overall_score m is = Inr None \<longleftrightarrow>
      m = [] \<and> (\<forall>i\<in>set is. mentions ''visibility'' i \<or> mentions ''waiting'' i))
   \<and> calculate_overall_score [] [] = Inr None
   \<and> (numeric_metrics m \<longrightarrow>
        \<not> (m = [] \<and> (\<forall>i\<in>set is. mentions ''visibility'' i \<or> mentions ''waiting'' i)) \<longrightarrow>
        (\<exists>n. calculate_overall_score m is = Inr (Some n)))"
proof (intro conjI impI)
  show "calculate_overall_score m is = Inr None \<longleftrightarrow>
      m = [] \<and> (\<forall>i\<in>set is. mentions ''visibility'' i \<or> mentions ''waiting'' i)"
    by (auto simp: calculate_overall_score_def Let_def list_all_iff split: sum.splits)
  then show "\<exists>n. calculate_overall_score m is = Inr (Some n)"
    if "numeric_metrics m"
      and "\<not> (m = [] \<and> (\<forall>i\<in>set is. mentions ''visibility'' i \<or> mentions ''waiting'' i))"
    using that calculate_overall_score_numeric [of m "is"] by (metis not_Some_eq)
  show "calculate_overall_score [] [] = Inr None"
    by (simp add: calculate_overall_score_def)
qed

theorem insufficient_data_iff_witness:
  "calculate_overall_score [] [''Low VISIBILITY'', ''Waiting for pose''] = Inr None
   \<and> numeric_metrics [(''torsoAngleFromVertical'', PyNum 25)]
   \<and> (\<exists>n. calculate_overall_score [(''torsoAngleFromVertical'', PyNum 25)] [''glare''] = Inr (Some n))
   \<and> (\<exists>n. calculate_overall_score [] [''glare''] = Inr (Some n))"
proof -
  have a: "\<forall>i\<in>set [''Low VISIBILITY'', ''Waiting for pose''].
             mentions ''visibility'' i \<or> mentions ''waiting'' i"
    by (simp add: mentions_def lower_def lower_char_def ascii_uppercase_def ascii_lowercase_def)
  have b: "numeric_metrics [(''torsoAngleFromVertical'', PyNum 25)]"
    by (simp add: numeric_metrics_def metric_keys_def numeric_or_null_def dict_get_def)
  have c: "numeric_metrics []"
    by (simp add: numeric_metrics_def metric_keys_def numeric_or_null_def dict_get_def)
  have d: "\<not> (\<forall>i\<in>set [''glare'']. mentions ''visibility'' i \<or> mentions ''waiting'' i)"
    by (simp add: mentions_def lower_def lower_char_def ascii_uppercase_def ascii_lowercase_def)
  show ?thesis
    using a b c d
      insufficient_data_iff [of "[]" "[''Low VISIBILITY'', ''Waiting for pose'']"]
      insufficient_data_iff [of "[(''torsoAngleFromVertical'', PyNum 25)]" "[''glare'']"]
      insufficient_data_iff [of "[]" "[''glare'']"]
    by simp
qed

text \<open>
  C2 as stated does not hold: the dictionary \<^verbatim>\<open>{shoulderAngle: "abc"}\<close> is not empty, so
  the null case does not apply, and yet no integer is returned, because \<^verbatim>\<open>abs\<close> raises
  on the string.
\<close>

theorem string_metric_no_score_counterexample:
  "[(''shoulderAngle'', PyStr ''abc'')] \<noteq> []
   \<and> calculate_overall_score [(''shoulderAngle'', PyStr ''abc'')] [] = Inl TypeError"
  by (simp add: calculate_overall_score_def score_shoulder_def dict_get_def)

lemma dict_get_dict_set:
  "dict_get (dict_set m k v) k' = (if k' = k then v else dict_get m k')"
  by (induction m) (auto simp: dict_get_def)

lemma dict_set_nonempty: "dict_set m k v \<noteq> []"
  by (cases m) auto

lemma score_shoulder_number:
  "dict_get m ''shoulderAngle'' = PyNum a \<Longrightarrow>
   score_shoulder m hv sc =
     Inr (sc - (if \<bar>a\<bar> > 10 then 22 else if \<bar>a\<bar> > 5 then 14 else 0))"
  by (simp add: score_shoulder_def)

lemma score_torso_cong:
  "dict_get m ''torsoAngleFromVertical'' = dict_get m' ''torsoAngleFromVertical'' \<Longrightarrow>
   score_torso m hv sc = score_torso m' hv sc"
  by (simp add: score_torso_def)

lemma score_spine_cong:
  "dict_get m ''spineHorizontalOffsetRatio'' = dict_get m' ''spineHorizontalOffsetRatio'' \<Longrightarrow>
   score_spine m hv sc = score_spine m' hv sc"
  by (simp add: score_spine_def)

lemma score_head_cong:
  "dict_get m ''headForwardRatio'' = dict_get m' ''headForwardRatio'' \<Longrightarrow>
   score_head m hv sc = score_head m' hv sc"
  by (simp add: score_head_def)

text \<open>
  C9. With the other metrics and the issue list fixed, a shoulder angle of larger absolute
  value never gives a larger score: both scores are integers, and the one for the larger
  angle is at most the other.
\<close>

theorem shoulder_monotone:
  assumes num: "numeric_metrics (dict_set m ''shoulderAngle'' (PyNum a1))"
    and le: "\<bar>a1\<bar> \<le> \<bar>a2\<bar>"
  shows "\<exists>s1 s2.
           calculate_overall_score (dict_set m ''shoulderAngle'' (PyNum a1)) is = Inr (Some s1)
         \<and> calculate_overall_score (dict_set m ''shoulderAngle'' (PyNum a2)) is = Inr (Some s2)
         \<and> s2 \<le> s1"
proof -
  let ?m1 = "dict_set m ''shoulderAngle'' (PyNum a1)"
  let ?m2 = "dict_set m ''shoulderAngle'' (PyNum a2)"
  obtain p2 where s2: "\<And>hv sc. score_torso ?m1 hv sc = Inr (sc - p2 hv)"
    using score_torso_shift [OF numeric_metricsD(2) [OF num]] by metis
  obtain p3 where s3: "\<And>hv sc. score_spine ?m1 hv sc = Inr (sc - p3 hv)"
    using score_spine_shift [OF numeric_metricsD(3) [OF num]] by metis
  obtain p4 where s4: "\<And>hv sc. score_head ?m1 hv sc = Inr (sc - p4 hv)"
    using score_head_shift [OF numeric_metricsD(4) [OF num]] by metis
  have t2: "\<And>hv sc. score_torso ?m2 hv sc = Inr (sc - p2 hv)"
    using s2 score_torso_cong [of ?m2 ?m1] by (simp add: dict_get_dict_set)
  have t3: "\<And>hv sc. score_spine ?m2 hv sc = Inr (sc - p3 hv)"
    using s3 score_spine_cong [of ?m2 ?m1] by (simp add: dict_get_dict_set)
  have t4: "\<And>hv sc. score_head ?m2 hv sc = Inr (sc - p4 hv)"
    using s4 score_head_cong [of ?m2 ?m1] by (simp add: dict_get_dict_set)
  have s1: "\<And>hv sc. score_shoulder ?m1 hv sc =
             Inr (sc - (if \<bar>a1\<bar> > 10 then 22 else if \<bar>a1\<bar> > 5 then 14 else 0))"
    by (rule score_shoulder_number) (simp add: dict_get_dict_set)
  have t1: "\<And>hv sc. score_shoulder ?m2 hv sc =
             Inr (sc - (if \<bar>a2\<bar> > 10 then 22 else if \<bar>a2\<bar> > 5 then 14 else 0))"
    by (rule score_shoulder_number) (simp add: dict_get_dict_set)
  define hv where "hv = list_ex (\<lambda>i. mentions ''visibility'' i) is"
  define pen where "pen a = (if \<bar>a\<bar> > 10 then 22 else if \<bar>a\<bar> > 5 then 14 else (0::int))"
    for a :: real
  define rest where "rest = p2 hv + p3 hv + p4 hv + (if hv then 6 else 0)"
  have c1: "calculate_overall_score ?m1 is = Inr (Some (max 0 (min 100 (100 - pen a1 - rest))))"
    by (simp add: calculate_overall_score_def Let_def dict_set_nonempty s1 s2 s3 s4
        py_round_def hv_def pen_def rest_def algebra_simps)
  have c2: "calculate_overall_score ?m2 is = Inr (Some (max 0 (min 100 (100 - pen a2 - rest))))"
    by (simp add: calculate_overall_score_def Let_def dict_set_nonempty t1 t2 t3 t4
        py_round_def hv_def pen_def rest_def algebra_simps)
  have "pen a1 \<le> pen a2"
    using le by (simp add: pen_def)
  then have "max 0 (min 100 (100 - pen a2 - rest)) \<le> max 0 (min 100 (100 - pen a1 - rest))"
    by linarith
  with c1 c2 show ?thesis
    by simp
qed

theorem shoulder_monotone_witness:
  "numeric_metrics (dict_set [(''torsoAngleFromVertical'', PyNum 17)] ''shoulderAngle'' (PyNum 6))
   \<and> \<bar>6::real\<bar> \<le> \<bar>- 11\<bar>
   \<and> calculate_overall_score
        (dict_set [(''torsoAngleFromVertical'', PyNum 17)] ''shoulderAngle'' (PyNum 6)) []
       = Inr (Some 62)
   \<and> calculate_overall_score
        (dict_set [(''torsoAngleFromVertical'', PyNum 17)] ''shoulderAngle'' (PyNum (- 11))) []
       = Inr (Some 54)"
proof -
  have n: "numeric_metrics
             (dict_set [(''torsoAngleFromVertical'', PyNum 17)] ''shoulderAngle'' (PyNum 6))"
    by (simp add: numeric_metrics_def metric_keys_def numeric_or_null_def dict_get_def)
  have l: "\<bar>6::real\<bar> \<le> \<bar>- 11\<bar>" by simp
  show ?thesis
    using n l shoulder_monotone [OF n l, of "[]"]
    by (simp add: scorer_eval)
qed

subsection \<open>The metric analysis: one handler for the four blocks\<close>

lemma assess_shoulder_raises:
  "\<not> numeric_or_null (dict_get m ''shoulderAngle'') \<Longrightarrow> assess_shoulder m st = Inl TypeError"
  by (cases "dict_get m ''shoulderAngle''")
    (simp_all add: assess_shoulder_def numeric_or_null_def split: prod.splits)

lemma assess_shoulder_null: "dict_get m ''shoulderAngle'' = PyNone \<Longrightarrow> assess_shoulder m st = Inr st"
  by (simp add: assess_shoulder_def split: prod.splits)

lemma assess_shoulder_cong:
  "dict_get m ''shoulderAngle'' = dict_get m' ''shoulderAngle'' \<Longrightarrow> assess_shoulder m st = assess_shoulder m' st"
  by (simp add: assess_shoulder_def)

lemma assess_shoulder_returns:
  assumes "numeric_or_null (dict_get m ''shoulderAngle'')"
  shows "\<exists>st'. assess_shoulder m st = Inr st'"
proof (cases "dict_get m ''shoulderAngle'' = PyNone")
  case True
  then show ?thesis by (simp add: assess_shoulder_null)
next
  case False
  with assms have "is_number (dict_get m ''shoulderAngle'')"
    by (simp add: numeric_or_null_def)
  then obtain a where "py_abs (dict_get m ''shoulderAngle'') = Inr a"
    using py_abs_number by blast
  with False show ?thesis
    by (simp add: assess_shoulder_def split: prod.splits)
qed

lemma assess_spine_raises:
  "\<not> numeric_or_null (dict_get m ''spineHorizontalOffsetRatio'') \<Longrightarrow> assess_spine m st = Inl TypeError"
  by (cases "dict_get m ''spineHorizontalOffsetRatio''")
    (simp_all add: assess_spine_def numeric_or_null_def split: prod.splits)

lemma assess_spine_null: "dict_get m ''spineHorizontalOffsetRatio'' = PyNone \<Longrightarrow> assess_spine m st = Inr st"
  by (simp add: assess_spine_def split: prod.splits)

lemma assess_spine_cong:
  "dict_get m ''spineHorizontalOffsetRatio'' = dict_get m' ''spineHorizontalOffsetRatio'' \<Longrightarrow> assess_spine m st = assess_spine m' st"
  by (simp add: assess_spine_def)

lemma assess_spine_returns:
  assumes "numeric_or_null (dict_get m ''spineHorizontalOffsetRatio'')"
  shows "\<exists>st'. assess_spine m st = Inr st'"
proof (cases "dict_get m ''spineHorizontalOffsetRatio'' = PyNone")
  case True
  then show ?thesis by (simp add: assess_spine_null)
next
  case False
  with assms have n: "is_number (dict_get m ''spineHorizontalOffsetRatio'')"
    by (simp add: numeric_or_null_def)
  obtain b1 b2 where
    "py_gt (dict_get m ''spineHorizontalOffsetRatio'') (THRESHOLDS spine_offset_ratio_significant) = Inr b1"
    "py_gt (dict_get m ''spineHorizontalOffsetRatio'') (THRESHOLDS spine_offset_ratio_warning) = Inr b2"
    using py_gt_number [OF n] by blast
  with False show ?thesis
    by (cases b1; cases b2) (simp_all add: assess_spine_def split: prod.splits)
qed

lemma assess_torso_raises:
  "\<not> numeric_or_null (dict_get m ''torsoAngleFromVertical'') \<Longrightarrow> assess_torso m st = Inl TypeError"
  by (cases "dict_get m ''torsoAngleFromVertical''")
    (simp_all add: assess_torso_def numeric_or_null_def split: prod.splits)

lemma assess_torso_null: "dict_get m ''torsoAngleFromVertical'' = PyNone \<Longrightarrow> assess_torso m st = Inr st"
  by (simp add: assess_torso_def split: prod.splits)

lemma assess_torso_cong:
  "dict_get m ''torsoAngleFromVertical'' = dict_get m' ''torsoAngleFromVertical'' \<Longrightarrow> assess_torso m st = assess_torso m' st"
  by (simp add: assess_torso_def)

lemma assess_torso_returns:
  assumes "numeric_or_null (dict_get m ''torsoAngleFromVertical'')"
  shows "\<exists>st'. assess_torso m st = Inr st'"
proof (cases "dict_get m ''torsoAngleFromVertical'' = PyNone")
  case True
  then show ?thesis by (simp add: assess_torso_null)
next
  case False
  with assms have "is_number (dict_get m ''torsoAngleFromVertical'')"
    by (simp add: numeric_or_null_def)
  then obtain a where "py_abs (dict_get m ''torsoAngleFromVertical'') = Inr a"
    using py_abs_number by blast
  with False show ?thesis
    by (simp add: assess_torso_def split: prod.splits)
qed

lemma assess_head_raises:
  "\<not> numeric_or_null (dict_get m ''headForwardRatio'') \<Longrightarrow> assess_head m st = Inl TypeError"
  by (cases "dict_get m ''headForwardRatio''")
    (simp_all add: assess_head_def numeric_or_null_def split: prod.splits)

lemma assess_head_null: "dict_get m ''headForwardRatio'' = PyNone \<Longrightarrow> assess_head m st = Inr st"
  by (simp add: assess_head_def split: prod.splits)

lemma assess_head_cong:
  "dict_get m ''headForwardRatio'' = dict_get m' ''headForwardRatio'' \<Longrightarrow> assess_head m st = assess_head m' st"
  by (simp add: assess_head_def)

lemma assess_head_returns:
  assumes "numeric_or_null (dict_get m ''headForwardRatio'')"
  shows "\<exists>st'. assess_head m st = Inr st'"
proof (cases "dict_get m ''headForwardRatio'' = PyNone")
  case True
  then show ?thesis by (simp add: assess_head_null)
next
  case False
  with assms have n: "is_number (dict_get m ''headForwardRatio'')"
    by (simp add: numeric_or_null_def)
  obtain b1 b2 where
    "py_gt (dict_get m ''headForwardRatio'') (THRESHOLDS head_forward_ratio_significant) = Inr b1"
    "py_gt (dict_get m ''headForwardRatio'') (THRESHOLDS head_forward_ratio_warning) = Inr b2"
    using py_gt_number [OF n] by blast
  with False show ?thesis
    by (cases b1; cases b2) (simp_all add: assess_head_def split: prod.splits)
qed

lemma dict_get_restrict_keys:
  "dict_get (restrict_keys m ks) k = (if k \<in> set ks then dict_get m k else PyNone)"
  by (induction m) (auto simp: dict_get_def restrict_keys_def)

text \<open>
  C1 (as the code has it). When the evaluation of a metric raises during the metric
  analysis, the analysis stops there. The phrases and recommendations of the metrics
  looked at before it (in the order shoulderAngle, spineHorizontalOffsetRatio,
  torsoAngleFromVertical, headForwardRatio) are exactly those of a run in which the
  faulting metric and every later metric are absent; the single phrase
  "Error during metric analysis." is appended to them; the later metrics add nothing.
\<close>

theorem metric_fault_keeps_earlier:
  assumes j: "j < length analysis_order"
    and bad: "\<not> numeric_or_null (dict_get m (analysis_order ! j))"
    and good: "\<forall>i<j. numeric_or_null (dict_get m (analysis_order ! i))"
  shows "analyze_metrics m =
           on_metric_error (analyze_metrics (restrict_keys m (take j analysis_order)))"
proof -
  let ?m' = "restrict_keys m (take j analysis_order)"
  from j have "j < 4"
    by (simp add: analysis_order_def)
  then consider "j = 0" | "j = 1" | "j = 2" | "j = 3"
    by linarith
  then show ?thesis
  proof cases
    case 1
    have "assess_shoulder m ([], []) = Inl TypeError"
      using bad 1 by (simp add: assess_shoulder_raises analysis_order_def)
    moreover have "analyze_metrics ?m' = ([], [])"
      using 1
      by (simp add: analyze_metrics_def assess_shoulder_null assess_spine_null
          assess_torso_null assess_head_null dict_get_restrict_keys)
    ultimately show ?thesis
      by (simp add: analyze_metrics_def)
  next
    case 2
    have "numeric_or_null (dict_get m ''shoulderAngle'')"
      using good 2 by (simp add: analysis_order_def)
    then obtain st1 where a: "assess_shoulder m ([], []) = Inr st1"
      using assess_shoulder_returns by blast
    have b: "assess_spine m st1 = Inl TypeError"
      using bad 2 by (simp add: assess_spine_raises analysis_order_def)
    have "assess_shoulder ?m' ([], []) = Inr st1"
      using a assess_shoulder_cong [of ?m' m] 2
      by (simp add: dict_get_restrict_keys analysis_order_def)
    then have "analyze_metrics ?m' = st1"
      using 2
      by (simp add: analyze_metrics_def assess_spine_null assess_torso_null assess_head_null
          dict_get_restrict_keys analysis_order_def)
    with a b show ?thesis
      by (simp add: analyze_metrics_def)
  next
    case 3
    have "numeric_or_null (dict_get m ''shoulderAngle'')"
      and "numeric_or_null (dict_get m ''spineHorizontalOffsetRatio'')"
      using good [rule_format, of 0] good [rule_format, of 1] 3
      by (simp_all add: analysis_order_def)
    then obtain st1 st2 where a: "assess_shoulder m ([], []) = Inr st1"
      and b: "assess_spine m st1 = Inr st2"
      using assess_shoulder_returns assess_spine_returns by metis
    have c: "assess_torso m st2 = Inl TypeError"
      using bad 3 by (simp add: assess_torso_raises analysis_order_def numeral_2_eq_2)
    have "assess_shoulder ?m' ([], []) = Inr st1" and "assess_spine ?m' st1 = Inr st2"
      using a b assess_shoulder_cong [of ?m' m] assess_spine_cong [of ?m' m] 3
      by (simp_all add: dict_get_restrict_keys analysis_order_def numeral_2_eq_2)
    then have "analyze_metrics ?m' = st2"
      using 3
      by (simp add: analyze_metrics_def assess_torso_null assess_head_null
          dict_get_restrict_keys analysis_order_def numeral_2_eq_2)
    with a b c show ?thesis
      by (simp add: analyze_metrics_def)
  next
    case 4
    have "numeric_or_null (dict_get m ''shoulderAngle'')"
      and "numeric_or_null (dict_get m ''spineHorizontalOffsetRatio'')"
      and "numeric_or_null (dict_get m ''torsoAngleFromVertical'')"
      using good [rule_format, of 0] good [rule_format, of 1] good [rule_format, of 2] 4
      by (simp_all add: analysis_order_def numeral_2_eq_2)
    then obtain st1 st2 st3 where a: "assess_shoulder m ([], []) = Inr st1"
      and b: "assess_spine m st1 = Inr st2" and c: "assess_torso m st2 = Inr st3"
      using assess_shoulder_returns assess_spine_returns assess_torso_returns by metis
    have d: "assess_head m st3 = Inl TypeError"
      using bad 4 by (simp add: assess_head_raises analysis_order_def numeral_3_eq_3)
    have "assess_shoulder ?m' ([], []) = Inr st1" and "assess_spine ?m' st1 = Inr st2"
      and "assess_torso ?m' st2 = Inr st3"
      using a b c assess_shoulder_cong [of ?m' m] assess_spine_cong [of ?m' m]
        assess_torso_cong [of ?m' m] 4
      by (simp_all add: dict_get_restrict_keys analysis_order_def numeral_3_eq_3)
    then have "analyze_metrics ?m' = st3"
      using 4
      by (simp add: analyze_metrics_def assess_head_null
          dict_get_restrict_keys analysis_order_def numeral_3_eq_3)
    with a b c d show ?thesis
      by (simp add: analyze_metrics_def)
  qed
qed

theorem metric_fault_keeps_earlier_witness:
  "1 < length analysis_order
   \<and> \<not> numeric_or_null
         (dict_get [(''shoulderAngle'', PyNum 12), (''spineHorizontalOffsetRatio'', PyStr ''n/a''),
                    (''torsoAngleFromVertical'', PyNum 25)] (analysis_order ! 1))
   \<and> numeric_or_null
         (dict_get [(''shoulderAngle'', PyNum 12), (''spineHorizontalOffsetRatio'', PyStr ''n/a''),
                    (''torsoAngleFromVertical'', PyNum 25)] (analysis_order ! 0))
   \<and> analyze_metrics [(''shoulderAngle'', PyNum 12), (''spineHorizontalOffsetRatio'', PyStr ''n/a''),
                       (''torsoAngleFromVertical'', PyNum 25)]
       = ([''Shoulders significantly uneven.'', ''Error during metric analysis.''],
          [''Sit evenly, relax shoulders.'', ''Check armrest height/usage.''])"
  using metric_fault_keeps_earlier
    [of 1 "[(''shoulderAngle'', PyNum 12), (''spineHorizontalOffsetRatio'', PyStr ''n/a''),
            (''torsoAngleFromVertical'', PyNum 25)]"]
  by (simp add: analysis_order_def numeric_or_null_def dict_get_def restrict_keys_def
      analyze_metrics_def assess_shoulder_def assess_spine_def assess_torso_def
      assess_head_def on_metric_error_def)

text \<open>
  C1 as stated does not hold: a fault in the shoulder metric leaves a significant torso
  deviation unreported, although the torso block alone reports it, with its three
  recommendations, when the shoulder metric is absent.
\<close>

theorem metric_fault_skips_later_counterexample:
  "analyze_metrics [(''shoulderAngle'', PyStr ''abc''), (''torsoAngleFromVertical'', PyNum 25)]
     = ([''Error during metric analysis.''], [])
   \<and> analyze_metrics [(''torsoAngleFromVertical'', PyNum 25)]
     = ([''Significant slouch or backward lean.''],
        [''Sit tall, chest up.'', ''Use lumbar support actively.'',
         ''Stretch chest/back during breaks.''])"
  by (simp add: dict_get_def analyze_metrics_def assess_shoulder_def assess_spine_def
      assess_torso_def assess_head_def on_metric_error_def)

text \<open>No phrase at all means that no block raised: every recognised metric is a number or null.\<close>

lemma analyze_metrics_no_phrase:
  assumes "fst (analyze_metrics m) = []"
  shows "numeric_metrics m"
proof -
  have 1: "numeric_or_null (dict_get m ''shoulderAngle'')"
  proof (rule ccontr)
    assume "\<not> numeric_or_null (dict_get m ''shoulderAngle'')"
    then have "analyze_metrics m = on_metric_error ([], [])"
      by (simp add: analyze_metrics_def assess_shoulder_raises)
    with assms show False by (simp add: on_metric_error_def)
  qed
  then obtain st1 where a: "assess_shoulder m ([], []) = Inr st1"
    using assess_shoulder_returns by blast
  have 2: "numeric_or_null (dict_get m ''spineHorizontalOffsetRatio'')"
  proof (rule ccontr)
    assume "\<not> numeric_or_null (dict_get m ''spineHorizontalOffsetRatio'')"
    then have "analyze_metrics m = on_metric_error st1"
      by (simp add: analyze_metrics_def a assess_spine_raises)
    with assms show False by (simp add: on_metric_error_def)
  qed
  then obtain st2 where b: "assess_spine m st1 = Inr st2"
    using assess_spine_returns by blast
  have 3: "numeric_or_null (dict_get m ''torsoAngleFromVertical'')"
  proof (rule ccontr)
    assume "\<not> numeric_or_null (dict_get m ''torsoAngleFromVertical'')"
    then have "analyze_metrics m = on_metric_error st2"
      by (simp add: analyze_metrics_def a b assess_torso_raises)
    with assms show False by (simp add: on_metric_error_def)
  qed
  then obtain st3 where c: "assess_torso m st2 = Inr st3"
    using assess_torso_returns by blast
  have 4: "numeric_or_null (dict_get m ''headForwardRatio'')"
  proof (rule ccontr)
    assume "\<not> numeric_or_null (dict_get m ''headForwardRatio'')"
    then have "analyze_metrics m = on_metric_error st3"
      by (simp add: analyze_metrics_def a b c assess_head_raises)
    with assms show False by (simp add: on_metric_error_def)
  qed
  from 1 2 3 4 show ?thesis
    by (simp add: numeric_metrics_def metric_keys_def)
qed

lemma no_phrase_score_returns:
  assumes "fst (analyze_metrics m) = []"
  shows "\<exists>fs. calculate_overall_score m is = Inr fs"
  using analyze_metrics_no_phrase [OF assms] by (rule calculate_overall_score_numeric)

subsection \<open>De-duplication by dict.fromkeys\<close>

lemma fromkeys_into_append:
  "fromkeys_into keys (xs @ ys) = fromkeys_into (fromkeys_into keys xs) ys"
  by (induction xs arbitrary: keys) simp_all

lemma set_fromkeys_into: "set (fromkeys_into keys xs) = set keys \<union> set xs"
  by (induction xs arbitrary: keys) auto

lemma distinct_fromkeys_into: "distinct keys \<Longrightarrow> distinct (fromkeys_into keys xs)"
  by (induction xs arbitrary: keys) simp_all

lemma first_occurrences_snoc:
  "first_occurrences (xs @ [x]) = first_occurrences xs @ (if x \<in> set xs then [] else [x])"
proof -
  have "filter (\<lambda>i. (xs @ [x]) ! i \<notin> set (take i (xs @ [x]))) [0..<length xs]
          = filter (\<lambda>i. xs ! i \<notin> set (take i xs)) [0..<length xs]"
    by (rule filter_cong) (simp_all add: nth_append)
  moreover have "map (\<lambda>i. (xs @ [x]) ! i) (filter (\<lambda>i. xs ! i \<notin> set (take i xs)) [0..<length xs])
          = map (\<lambda>i. xs ! i) (filter (\<lambda>i. xs ! i \<notin> set (take i xs)) [0..<length xs])"
    by (rule map_cong) (simp_all add: nth_append)
  ultimately show ?thesis
    by (simp add: first_occurrences_def)
qed

lemma dict_fromkeys_first_occurrences: "dict_fromkeys xs = first_occurrences xs"
proof (induction xs rule: rev_induct)
  case Nil
  show ?case by (simp add: dict_fromkeys_def first_occurrences_def)
next
  case (snoc x xs)
  have "dict_fromkeys (xs @ [x]) = fromkeys_into (dict_fromkeys xs) [x]"
    by (simp add: dict_fromkeys_def fromkeys_into_append)
  also have "\<dots> = dict_fromkeys xs @ (if x \<in> set xs then [] else [x])"
    by (simp add: dict_fromkeys_def set_fromkeys_into)
  finally show ?case
    by (simp add: snoc.IH first_occurrences_snoc)
qed

lemma distinct_dict_fromkeys: "distinct (dict_fromkeys xs)"
  by (simp add: dict_fromkeys_def distinct_fromkeys_into)

subsection \<open>Claims about the endpoint\<close>

text \<open>
  The endpoint answers with a feedback object when the recognised metrics are numbers or
  null. Otherwise the scorer, which is called outside the inner \<^verbatim>\<open>try\<close>, raises on the
  value the metric analysis has already stumbled on, and the outer handler turns that into
  the status 500.
\<close>

lemma endpoint_returns:
  assumes "numeric_metrics (request_metrics dm)"
  shows "\<exists>r. analyze_posture_endpoint dm di = Inr r"
proof -
  obtain fs where "calculate_overall_score (request_metrics dm) (request_issues di) = Inr fs"
    using calculate_overall_score_numeric [OF assms] by blast
  then show ?thesis
    by (simp add: analyze_posture_endpoint_def Let_def split: prod.splits)
qed

lemma endpoint_raises:
  "\<not> numeric_metrics (request_metrics dm) \<Longrightarrow>
   analyze_posture_endpoint dm di = Inl (HTTPException 500)"
  by (simp add: analyze_posture_endpoint_def Let_def calculate_overall_score_raises
      split: prod.splits)

lemma strip_visibility_text:
  "strip ''Could not analyze clearly due to visibility. Adjust position/lighting.''
     = ''Could not analyze clearly due to visibility. Adjust position/lighting.''"
  by (simp add: strip_def is_space_def)

lemma strip_good_alignment_text:
  "strip ''Posture analysis indicates good alignment.''
     = ''Posture analysis indicates good alignment.''"
  by (simp add: strip_def is_space_def)

lemma endpoint_uneven_shoulders:
  "analyze_posture_endpoint (Some [(''shoulderAngle'', PyNum 12)]) (Some [''Low visibility''])
     = Inr \<lparr>score = Some 72,
            assessment = Some ''Shoulders significantly uneven. Visibility may affect accuracy.'',
            recommendations = [''Sit evenly, relax shoulders.'', ''Check armrest height/usage.''],
            maintenance_tips = maintenance_tips_list,
            benefits = Some benefits_text\<rparr>"
proof -
  have a: "analyze_metrics [(''shoulderAngle'', PyNum 12)] =
             ([''Shoulders significantly uneven.''],
              [''Sit evenly, relax shoulders.'', ''Check armrest height/usage.''])"
    by (simp add: metric_eval)
  have s: "calculate_overall_score [(''shoulderAngle'', PyNum 12)] [''Low visibility'']
             = Inr (Some 72)"
    by (simp add: scorer_eval)
  show ?thesis
    by (simp add: analyze_posture_endpoint_def request_metrics_def request_issues_def a s
        issue_eval dict_fromkeys_def strip_def is_space_def)
qed

text \<open>
  C3. For the metrics \<^verbatim>\<open>{torsoAngleFromVertical: 25}\<close> and no issues, the score is 63
  (100, minus 22 for the significant torso deviation, minus 5 for each of the three
  missing metrics), the only phrase is "Significant slouch or backward lean.", and there
  are exactly three recommendations.
\<close>

theorem torso_only_scenario:
  "calculate_overall_score [(''torsoAngleFromVertical'', PyNum 25)] [] = Inr (Some 63)
   \<and> 63 = 100 - PENALTIES significant - 3 * PENALTIES missing_data_low
   \<and> analyze_metrics [(''torsoAngleFromVertical'', PyNum 25)] =
       ([''Significant slouch or backward lean.''],
        [''Sit tall, chest up.'', ''Use lumbar support actively.'',
         ''Stretch chest/back during breaks.''])
   \<and> analyze_posture_endpoint (Some [(''torsoAngleFromVertical'', PyNum 25)]) (Some []) =
       Inr \<lparr>score = Some 63,
            assessment = Some ''Significant slouch or backward lean.'',
            recommendations =
              [''Sit tall, chest up.'', ''Use lumbar support actively.'',
               ''Stretch chest/back during breaks.''],
            maintenance_tips = maintenance_tips_list,
            benefits = Some benefits_text\<rparr>"
proof (intro conjI)
  show s: "calculate_overall_score [(''torsoAngleFromVertical'', PyNum 25)] [] = Inr (Some 63)"
    by (simp add: scorer_eval)
  show "63 = 100 - PENALTIES significant - 3 * PENALTIES missing_data_low"
    by simp
  show a: "analyze_metrics [(''torsoAngleFromVertical'', PyNum 25)] =
       ([''Significant slouch or backward lean.''],
        [''Sit tall, chest up.'', ''Use lumbar support actively.'',
         ''Stretch chest/back during breaks.''])"
    by (simp add: analyze_metrics_def assess_shoulder_def assess_spine_def assess_torso_def
        assess_head_def dict_get_def)
  show "analyze_posture_endpoint (Some [(''torsoAngleFromVertical'', PyNum 25)]) (Some []) =
       Inr \<lparr>score = Some 63,
            assessment = Some ''Significant slouch or backward lean.'',
            recommendations =
              [''Sit tall, chest up.'', ''Use lumbar support actively.'',
               ''Stretch chest/back during breaks.''],
            maintenance_tips = maintenance_tips_list,
            benefits = Some benefits_text\<rparr>"
    by (simp add: analyze_posture_endpoint_def request_metrics_def request_issues_def s a
        dict_fromkeys_def strip_def is_space_def)
qed

text \<open>
  C5. When some issue string mentions "visibility" or "unclear", or some issue string
  mentions "waiting", and the metric analysis produced no phrase, the endpoint returns a
  result with no recommendations, no maintenance tips and no benefits text. This holds
  also where the score is 85 or more and the extras had been switched on before.
\<close>

theorem visibility_or_waiting_only_no_tips:
  assumes "list_ex (\<lambda>p. mentions ''visibility'' p \<or> mentions ''unclear'' p) (request_issues di)
           \<or> list_ex (\<lambda>p. mentions ''waiting'' p) (request_issues di)"
    and "fst (analyze_metrics (request_metrics dm)) = []"
  shows "\<exists>r. analyze_posture_endpoint dm di = Inr r
             \<and> recommendations r = [] \<and> maintenance_tips r = [] \<and> benefits r = None"
proof -
  obtain fs where "calculate_overall_score (request_metrics dm) (request_issues di) = Inr fs"
    using no_phrase_score_returns [OF assms(2)] by blast
  with assms show ?thesis
    by (auto simp: analyze_posture_endpoint_def Let_def split: prod.splits)
qed

theorem visibility_or_waiting_only_no_tips_witness:
  "list_ex (\<lambda>p. mentions ''waiting'' p) (request_issues (Some [''Waiting for pose'']))
   \<and> fst (analyze_metrics (request_metrics (Some [(''shoulderAngle'', PyNum 1)]))) = []
   \<and> calculate_overall_score [(''shoulderAngle'', PyNum 1)] [''Waiting for pose''] = Inr (Some 85)
   \<and> (\<exists>r. analyze_posture_endpoint (Some [(''shoulderAngle'', PyNum 1)])
              (Some [''Waiting for pose'']) = Inr r
           \<and> recommendations r = [] \<and> maintenance_tips r = [] \<and> benefits r = None)"
proof -
  have w: "list_ex (\<lambda>p. mentions ''waiting'' p) (request_issues (Some [''Waiting for pose'']))"
    by (simp add: request_issues_def issue_eval)
  have n: "fst (analyze_metrics (request_metrics (Some [(''shoulderAngle'', PyNum 1)]))) = []"
    by (simp add: request_metrics_def metric_eval)
  have s: "calculate_overall_score [(''shoulderAngle'', PyNum 1)] [''Waiting for pose'']
             = Inr (Some 85)"
    by (simp add: scorer_eval)
  show ?thesis
    using w n s visibility_or_waiting_only_no_tips [OF disjI2 [OF w] n]
    by simp
qed

text \<open>
  C6. When the metric analysis produced no phrase and some issue string mentions
  "visibility" or "unclear", the assessment of the result is
  "Could not analyze clearly due to visibility. Adjust position/lighting.", whether or not
  a "waiting" issue is present as well.
\<close>

theorem visibility_text_wins:
  assumes "fst (analyze_metrics (request_metrics dm)) = []"
    and "list_ex (\<lambda>p. mentions ''visibility'' p \<or> mentions ''unclear'' p) (request_issues di)"
  shows "\<exists>r. analyze_posture_endpoint dm di = Inr r
             \<and> assessment r =
                 Some ''Could not analyze clearly due to visibility. Adjust position/lighting.''"
proof -
  obtain fs where "calculate_overall_score (request_metrics dm) (request_issues di) = Inr fs"
    using no_phrase_score_returns [OF assms(1)] by blast
  with assms show ?thesis
    by (auto simp: analyze_posture_endpoint_def Let_def strip_visibility_text
        split: prod.splits)
qed

theorem visibility_text_wins_witness:
  "fst (analyze_metrics (request_metrics None)) = []
   \<and> list_ex (\<lambda>p. mentions ''visibility'' p \<or> mentions ''unclear'' p)
        (request_issues (Some [''Low VISIBILITY'', ''waiting for pose'']))
   \<and> list_ex (\<lambda>p. mentions ''waiting'' p)
        (request_issues (Some [''Low VISIBILITY'', ''waiting for pose'']))
   \<and> (\<exists>r. analyze_posture_endpoint None (Some [''Low VISIBILITY'', ''waiting for pose'']) = Inr r
           \<and> assessment r =
               Some ''Could not analyze clearly due to visibility. Adjust position/lighting.'')"
proof -
  have n: "fst (analyze_metrics (request_metrics None)) = []"
    by (simp add: request_metrics_def metric_eval)
  have v: "list_ex (\<lambda>p. mentions ''visibility'' p \<or> mentions ''unclear'' p)
             (request_issues (Some [''Low VISIBILITY'', ''waiting for pose'']))"
    by (simp add: request_issues_def issue_eval)
  have w: "list_ex (\<lambda>p. mentions ''waiting'' p)
             (request_issues (Some [''Low VISIBILITY'', ''waiting for pose'']))"
    by (simp add: request_issues_def issue_eval)
  show ?thesis
    using n v w visibility_text_wins [OF n v]
    by simp
qed

text \<open>
  C7. In every result the maintenance tips and the benefits text come together: either the
  tips are the fixed list of five and the benefits text is present, or the tips are empty
  and the benefits are null.
\<close>

theorem extras_atomic:
  assumes "analyze_posture_endpoint dm di = Inr r"
  shows "length maintenance_tips_list = 5
         \<and> (maintenance_tips r = maintenance_tips_list \<and> benefits r = Some benefits_text
            \<or> maintenance_tips r = [] \<and> benefits r = None)"
  using assms
  by (auto simp: analyze_posture_endpoint_def Let_def maintenance_tips_list_def
      split: prod.splits sum.splits if_splits)

theorem extras_atomic_witness:
  "analyze_posture_endpoint (Some [(''shoulderAngle'', PyNum 12)]) (Some [''Low visibility''])
     = Inr \<lparr>score = Some 72,
            assessment = Some ''Shoulders significantly uneven. Visibility may affect accuracy.'',
            recommendations = [''Sit evenly, relax shoulders.'', ''Check armrest height/usage.''],
            maintenance_tips = maintenance_tips_list,
            benefits = Some benefits_text\<rparr>
   \<and> length maintenance_tips_list = 5"
  using endpoint_uneven_shoulders extras_atomic [OF endpoint_uneven_shoulders]
  by simp

text \<open>
  C8. In every result the recommendations hold no string twice. They are the
  recommendations of the metric analysis (empty strings dropped) reduced to their first
  occurrences, in that order, unless the visibility/waiting-only override applies, which
  then replaces the de-duplicated list by the empty one.
\<close>

theorem recommendations_unique_in_order:
  assumes "analyze_posture_endpoint dm di = Inr r"
  shows "distinct (recommendations r)
         \<and> recommendations r =
            (if (list_ex (\<lambda>p. mentions ''visibility'' p \<or> mentions ''unclear'' p) (request_issues di)
                 \<or> list_ex (\<lambda>p. mentions ''waiting'' p) (request_issues di))
                \<and> fst (analyze_metrics (request_metrics dm)) = []
             then []
             else first_occurrences
                    (filter (\<lambda>r. r \<noteq> []) (snd (analyze_metrics (request_metrics dm)))))"
  using assms distinct_dict_fromkeys
  by (auto simp: analyze_posture_endpoint_def Let_def dict_fromkeys_first_occurrences [symmetric]
      split: prod.splits sum.splits if_splits)

theorem recommendations_unique_in_order_witness:
  "analyze_posture_endpoint (Some [(''shoulderAngle'', PyNum 12)]) (Some [''Low visibility''])
     = Inr \<lparr>score = Some 72,
            assessment = Some ''Shoulders significantly uneven. Visibility may affect accuracy.'',
            recommendations = [''Sit evenly, relax shoulders.'', ''Check armrest height/usage.''],
            maintenance_tips = maintenance_tips_list,
            benefits = Some benefits_text\<rparr>
   \<and> distinct [''Sit evenly, relax shoulders.'', ''Check armrest height/usage.'']
   \<and> first_occurrences
         (filter (\<lambda>r. r \<noteq> [])
            (snd (analyze_metrics (request_metrics (Some [(''shoulderAngle'', PyNum 12)])))))
       = [''Sit evenly, relax shoulders.'', ''Check armrest height/usage.'']"
  using endpoint_uneven_shoulders
    recommendations_unique_in_order [OF endpoint_uneven_shoulders]
  by (simp add: request_metrics_def metric_eval)

text \<open>
  C10. The insufficient-data test looks at whether the metric dictionary is empty, not at
  whether its values are null: for a non-empty dictionary in which every recognised metric
  is null, and no issues, the score is 80 (four deductions of 5 for missing data), the
  assessment is "Posture analysis indicates good alignment.", and there are neither
  recommendations nor extras.
\<close>

theorem null_metrics_score_80:
  assumes "request_metrics dm \<noteq> []"
    and "list_all (\<lambda>k. dict_get (request_metrics dm) k = PyNone) metric_keys"
    and "request_issues di = []"
  shows "calculate_overall_score (request_metrics dm) (request_issues di) = Inr (Some 80)
         \<and> analyze_posture_endpoint dm di =
             Inr \<lparr>score = Some 80,
                  assessment = Some ''Posture analysis indicates good alignment.'',
                  recommendations = [], maintenance_tips = [], benefits = None\<rparr>"
proof -
  let ?m = "request_metrics dm"
  from assms(2) have nulls: "dict_get ?m ''shoulderAngle'' = PyNone"
    "dict_get ?m ''torsoAngleFromVertical'' = PyNone"
    "dict_get ?m ''spineHorizontalOffsetRatio'' = PyNone"
    "dict_get ?m ''headForwardRatio'' = PyNone"
    by (simp_all add: metric_keys_def)
  have s: "calculate_overall_score ?m [] = Inr (Some 80)"
    using assms(1) nulls
    by (simp add: calculate_overall_score_def score_shoulder_def score_torso_def
        score_spine_def score_head_def py_round_def)
  have a: "analyze_metrics ?m = ([], [])"
    using nulls
    by (simp add: analyze_metrics_def assess_shoulder_null assess_spine_null
        assess_torso_null assess_head_null)
  show ?thesis
    using s a assms(3)
    by (simp add: analyze_posture_endpoint_def Let_def dict_fromkeys_def
        strip_good_alignment_text)
qed

theorem null_metrics_score_80_witness:
  "request_metrics (Some [(''shoulderAngle'', PyNone), (''torsoAngleFromVertical'', PyNone),
                          (''spineHorizontalOffsetRatio'', PyNone), (''headForwardRatio'', PyNone)])
     \<noteq> []
   \<and> list_all (\<lambda>k. dict_get (request_metrics
         (Some [(''shoulderAngle'', PyNone), (''torsoAngleFromVertical'', PyNone),
                (''spineHorizontalOffsetRatio'', PyNone), (''headForwardRatio'', PyNone)])) k = PyNone)
        metric_keys
   \<and> request_issues (Some []) = []
   \<and> analyze_posture_endpoint
        (Some [(''shoulderAngle'', PyNone), (''torsoAngleFromVertical'', PyNone),
               (''spineHorizontalOffsetRatio'', PyNone), (''headForwardRatio'', PyNone)])
        (Some []) =
       Inr \<lparr>score = Some 80,
            assessment = Some ''Posture analysis indicates good alignment.'',
            recommendations = [], maintenance_tips = [], benefits = None\<rparr>"
proof -
  let ?dm = "Some [(''shoulderAngle'', PyNone), (''torsoAngleFromVertical'', PyNone),
                   (''spineHorizontalOffsetRatio'', PyNone), (''headForwardRatio'', PyNone)]"
  have a: "request_metrics ?dm \<noteq> []"
    by (simp add: request_metrics_def)
  have b: "list_all (\<lambda>k. dict_get (request_metrics ?dm) k = PyNone) metric_keys"
    by (simp add: request_metrics_def metric_keys_def dict_get_def)
  have c: "request_issues (Some []) = []"
    by (simp add: request_issues_def)
  show ?thesis
    using a b c null_metrics_score_80 [OF a b c]
    by simp
qed

end
